theory Spec2Isabelle
  imports Main "HOL-Library.Word"
begin

section \<open>Errors\<close>

text \<open>
  A Go \<^verbatim>\<open>error\<close> value. \<^verbatim>\<open>nil\<close> is \<open>None\<close> of \<open>error option\<close>.
  The program itself creates one error only, with \<^verbatim>\<open>fmt.Errorf\<close>; every other error
  value is handed to it by a library it calls (the cluster client, the quantity parser,
  the file system).
\<close>

datatype error =
    NotFound
  | ExternalError string
  | Errorf string

section \<open>The generated message OperationProgress\<close>

text \<open>
  \<^verbatim>\<open>OperationProgress\<close> of \<^verbatim>\<open>common.pb.go\<close>. The three bookkeeping fields of the
  protobuf runtime (\<^verbatim>\<open>state\<close>, \<^verbatim>\<open>sizeCache\<close>, \<^verbatim>\<open>unknownFields\<close>) are read by no getter
  and are left out. The timestamp message is a type of another package: a type parameter.
  A pointer is an \<open>option\<close>, \<^verbatim>\<open>nil\<close> is \<open>None\<close>; \<^verbatim>\<open>int32\<close> is a 32-bit word.
\<close>

record 'ts OperationProgress =
  ProgressPercent :: "32 word"
  StartTime :: "'ts option"
  EndTime :: "'ts option"

definition GetProgressPercent :: "'ts OperationProgress option \<Rightarrow> 32 word" where
  "GetProgressPercent x = (case x of Some p \<Rightarrow> ProgressPercent p | None \<Rightarrow> 0)"

definition GetStartTime :: "'ts OperationProgress option \<Rightarrow> 'ts option" where
  "GetStartTime x = (case x of Some p \<Rightarrow> StartTime p | None \<Rightarrow> None)"

definition GetEndTime :: "'ts OperationProgress option \<Rightarrow> 'ts option" where
  "GetEndTime x = (case x of Some p \<Rightarrow> EndTime p | None \<Rightarrow> None)"

section \<open>Validation of a machine pool\<close>

text \<open>
  Modelled from the spec: the struct \<^verbatim>\<open>kubevirt.MachinePool\<close> is declared in a file of the
  repository that is not among the sources; the spec describes it as a "configuration
  struct with CPU count, storage size, and memory size expressed as quantity strings".
  The CPU count is an integer of unknown width and signedness, so it is an \<open>int\<close>, which
  holds every value either could take.
\<close>

record MachinePool =
  CPU :: int
  StorageSize :: string
  Memory :: string

text \<open>
  The library types the function uses: a \<^verbatim>\<open>field.Path\<close> is the list of its segments and
  \<^verbatim>\<open>Child\<close> appends one; \<^verbatim>\<open>field.Invalid\<close> builds an error from the path, the
  offending value and a detail message. The quantity parser and the sign of a quantity
  belong to the Kubernetes library and are parameters of the model. The function takes
  the pool by pointer; the model takes the struct the pointer refers to.
\<close>

datatype badValue = IntValue int | StringValue string

datatype fieldError = Invalid "string list" badValue string

definition Child :: "string list \<Rightarrow> string \<Rightarrow> string list" where
  "Child fldPath name = fldPath @ [name]"

record 'q resourcePkg =
  ParseQuantity :: "string \<Rightarrow> error + 'q"
  Sign :: "'q \<Rightarrow> int"

definition ValidateMachinePool ::
  "'q resourcePkg \<Rightarrow> MachinePool \<Rightarrow> string list \<Rightarrow> fieldError list" where
  "ValidateMachinePool resource p fldPath =
     (let allErrs = [];
          allErrs =
            (if CPU p \<le> 0
             then allErrs @ [Invalid (Child fldPath ''cpu'') (IntValue (CPU p))
                               ''CPU must be positive'']
             else allErrs);
          allErrs =
            (case ParseQuantity resource (StorageSize p) of
               Inl err \<Rightarrow>
                 allErrs @ [Invalid (Child fldPath ''storage'') (StringValue (StorageSize p))
                              ''Storage size must be of Quantity type format'']
             | Inr storageQuantity \<Rightarrow>
                 if Sign resource storageQuantity \<noteq> 1
                 then allErrs @ [Invalid (Child fldPath ''storage'') (StringValue (StorageSize p))
                                   ''Storage size must be positive value'']
                 else allErrs);
          allErrs =
            (case ParseQuantity resource (Memory p) of
               Inl err \<Rightarrow>
                 allErrs @ [Invalid (Child fldPath ''memory'') (StringValue (Memory p))
                              ''Memory must be of Quantity type format'']
             | Inr memoryQuantity \<Rightarrow>
                 if Sign resource memoryQuantity \<noteq> 1
                 then allErrs @ [Invalid (Child fldPath ''memory'') (StringValue (Memory p))
                                   ''Memory must be positive value'']
                 else allErrs)
      in allErrs)"

section \<open>Loading the kubeconfig file\<close>

text \<open>
  The process environment and the file system, as the program reads them:
  \<^verbatim>\<open>os.Getenv\<close> gives the empty string for a variable that is not set, and
  \<^verbatim>\<open>ioutil.ReadFile\<close> gives the content of a file or an error. \<^verbatim>\<open>filepath.Join\<close>
  is a library function and a parameter of the model.
\<close>

record process =
  environ :: "string \<rightharpoonup> string"
  ReadFile :: "string \<Rightarrow> error + string"

definition Getenv :: "process \<Rightarrow> string \<Rightarrow> string" where
  "Getenv s key = (case environ s key of Some v \<Rightarrow> v | None \<Rightarrow> [])"

text \<open>
  The two package-level variables. Go evaluates their initialisers once, when the
  package is initialised, in the environment of that moment.
\<close>

record packageVars =
  kubeConfigEnvName :: string
  kubeConfigDefaultFilename :: string

definition initPackageVars :: "(string list \<Rightarrow> string) \<Rightarrow> process \<Rightarrow> packageVars" where
  "initPackageVars Join s0 =
     \<lparr> kubeConfigEnvName = ''KUBECONFIG'',
       kubeConfigDefaultFilename = Join [Getenv s0 ''HOME'', ''.kube'', ''config''] \<rparr>"

definition LoadKubeConfigContent :: "packageVars \<Rightarrow> process \<Rightarrow> error + string" where
  "LoadKubeConfigContent vars s =
     (let kubeConfigFilename = Getenv s (kubeConfigEnvName vars);
          kubeConfigFilename =
            (if kubeConfigFilename = [] then kubeConfigDefaultFilename vars
             else kubeConfigFilename)
      in ReadFile s kubeConfigFilename)"

section \<open>The client wrapper\<close>

subsection \<open>The cluster API\<close>

text \<open>
  \<^verbatim>\<open>schema.GroupVersionResource\<close>, and the group and version constants of the four API
  packages the wrapper imports, which are parameters.
\<close>

record GroupVersion =
  Group :: string
  Version :: string

record GroupVersionResource = GroupVersion +
  Resource :: string

record apiPackages =
  kubevirtapiv1_GroupVersion :: GroupVersion
  cdiapiv1alpa1_SchemeGroupVersion :: GroupVersion
  corev1_SchemeGroupVersion :: GroupVersion
  nadv1_SchemeGroupVersion :: GroupVersion

text \<open>
  An \<^verbatim>\<open>unstructured.Unstructured\<close> object, as far as the wrapper reads it: its namespace,
  its name and its labels.
\<close>

record Unstructured =
  GetNamespace :: string
  GetName :: string
  GetLabels :: "string \<rightharpoonup> string"

text \<open>
  The cluster is outside the program. Its answers are the fields of the client: what a
  delete and a list of a resource answer, and what the \<open>i\<close>-th get of the run answers
  (so the answer to the same get may change from one poll to the next). What the program
  does to the outside is kept in a log of calls, in order: the requests it sends and the
  time it sleeps (a \<^verbatim>\<open>time.Duration\<close>, in nanoseconds).
\<close>

datatype call =
    DeleteCall GroupVersionResource string string
  | GetCall GroupVersionResource string string
  | ListCall GroupVersionResource string
  | SleepCall int

record client =
  deleteAnswer :: "GroupVersionResource \<Rightarrow> string \<Rightarrow> string \<Rightarrow> error option"
  getAnswer :: "nat \<Rightarrow> GroupVersionResource \<Rightarrow> string \<Rightarrow> string \<Rightarrow> error + Unstructured"
  listAnswer :: "GroupVersionResource \<Rightarrow> string \<Rightarrow> error + Unstructured list"

fun isGetCall :: "call \<Rightarrow> bool" where
  "isGetCall (GetCall resource namespace name) = True"
| "isGetCall _ = False"

definition getCount :: "call list \<Rightarrow> nat" where
  "getCount log = length (filter isGetCall log)"

definition Second :: int where
  "Second = 1000000000"

definition Sleep :: "int \<Rightarrow> call list \<Rightarrow> call list" where
  "Sleep d log = log @ [SleepCall d]"

fun errOf :: "error + 'a \<Rightarrow> error option" where
  "errOf (Inl err) = Some err"
| "errOf (Inr _) = None"

subsection \<open>getResource and deleteResource\<close>

definition getResource ::
  "client \<Rightarrow> string \<Rightarrow> string \<Rightarrow> GroupVersionResource \<Rightarrow> call list
    \<Rightarrow> (error + Unstructured) \<times> call list" where
  "getResource c namespace name resource log =
     (getAnswer c (getCount log) resource namespace name,
      log @ [GetCall resource namespace name])"

text \<open>
  The loop of \<^verbatim>\<open>deleteResource\<close>:
  \<^verbatim>\<open>for ; getErr == nil; _, getErr = c.getResource(...) { ... }\<close>.
  One call of \<open>waitLoop\<close> is the test of the condition, then the body, then the post
  statement. The counter is a Go \<^verbatim>\<open>int\<close>, a 64-bit word on the platforms the installer
  is built for; the loop leaves at 5, and the distance to 5 shrinks with every round.
\<close>

lemma counter_measure:
  fixes counter :: "64 word"
  assumes "counter \<noteq> 5"
  shows "unat (4 - counter) < unat (5 - counter)"
proof -
  from assms have "5 - counter \<noteq> 0" by simp
  then have "unat (5 - counter - 1) < unat (5 - counter)" by (rule measure_unat)
  moreover have "5 - counter - 1 = 4 - counter" by simp
  ultimately show ?thesis by simp
qed

function waitLoop ::
  "client \<Rightarrow> string \<Rightarrow> string \<Rightarrow> GroupVersionResource \<Rightarrow> error option \<Rightarrow> 64 word
    \<Rightarrow> call list \<Rightarrow> error option \<times> call list" where
  "waitLoop c namespace name resource getErr counter log =
     (if getErr = None then
        (if counter = 5 then
           (Some (Errorf (''Failed to delete resource '' @ name @
                          '', checked 5 times and the vm stil exists'')), log)
         else
           (let log1 = Sleep (1 * Second) log;
                counter1 = counter + 1;
                (r, log2) = getResource c namespace name resource log1
            in waitLoop c namespace name resource (errOf r) counter1 log2))
      else (None, log))"
  by pat_completeness auto
termination
  by (relation "measure (\<lambda>(c, namespace, name, resource, getErr, counter, log).
        unat (5 - counter))")
     (auto simp: counter_measure)

declare waitLoop.simps [simp del]

definition deleteResource ::
  "client \<Rightarrow> string \<Rightarrow> string \<Rightarrow> GroupVersionResource \<Rightarrow> bool \<Rightarrow> call list
    \<Rightarrow> error option \<times> call list" where
  "deleteResource c namespace name resource wait log =
     (let log0 = log @ [DeleteCall resource namespace name] in
      case deleteAnswer c resource namespace name of
        Some err \<Rightarrow> (Some err, log0)
      | None \<Rightarrow>
          if \<not> wait then (None, log0)
          else waitLoop c namespace name resource None 0 log0)"

subsection \<open>listResource\<close>

text \<open>
  \<^verbatim>\<open>requiredLabels\<close> is a Go map; \<^verbatim>\<open>range\<close> visits its entries in an order the runtime
  chooses. The model takes the entries as a list, in the order of the visit, whichever
  it is. The inner loop appends the name at the first entry the object's labels hold
  with an equal value and breaks.
\<close>

fun labelsLoop ::
  "(string \<times> string) list \<Rightarrow> (string \<rightharpoonup> string) \<Rightarrow> string \<Rightarrow> string list \<Rightarrow> string list" where
  "labelsLoop [] existLabels name result = result"
| "labelsLoop ((k, v) # rest) existLabels name result =
     (case existLabels k of
        Some existVal \<Rightarrow>
          if existVal = v then result @ [name]
          else labelsLoop rest existLabels name result
      | None \<Rightarrow> labelsLoop rest existLabels name result)"

fun itemsLoop ::
  "string \<Rightarrow> (string \<times> string) list \<Rightarrow> Unstructured list \<Rightarrow> string list \<Rightarrow> string list" where
  "itemsLoop namespace requiredLabels [] result = result"
| "itemsLoop namespace requiredLabels (d # ds) result =
     (if GetNamespace d \<noteq> namespace then itemsLoop namespace requiredLabels ds result
      else itemsLoop namespace requiredLabels ds
             (labelsLoop requiredLabels (GetLabels d) (GetName d) result))"

text \<open>
  The two results of the Go function are a pair: the names (a \<^verbatim>\<open>nil\<close> slice is the
  empty list) and the error.
\<close>

definition listResource ::
  "client \<Rightarrow> string \<Rightarrow> (string \<times> string) list \<Rightarrow> GroupVersionResource \<Rightarrow> call list
    \<Rightarrow> (string list \<times> error option) \<times> call list" where
  "listResource c namespace requiredLabels resource log =
     (let log1 = log @ [ListCall resource namespace] in
      case listAnswer c resource namespace of
        Inl err \<Rightarrow> (([], Some err), log1)
      | Inr items \<Rightarrow> ((itemsLoop namespace requiredLabels items [], None), log1))"

subsection \<open>The exported methods\<close>

definition vmRes :: "apiPackages \<Rightarrow> GroupVersionResource" where
  "vmRes pkgs =
     \<lparr> Group = Group (kubevirtapiv1_GroupVersion pkgs),
       Version = Version (kubevirtapiv1_GroupVersion pkgs),
       Resource = ''virtualmachines'' \<rparr>"

definition dvRes :: "apiPackages \<Rightarrow> GroupVersionResource" where
  "dvRes pkgs =
     \<lparr> Group = Group (cdiapiv1alpa1_SchemeGroupVersion pkgs),
       Version = Version (cdiapiv1alpa1_SchemeGroupVersion pkgs),
       Resource = ''datavolumes'' \<rparr>"

definition secretRes :: "apiPackages \<Rightarrow> GroupVersionResource" where
  "secretRes pkgs =
     \<lparr> Group = Group (corev1_SchemeGroupVersion pkgs),
       Version = Version (corev1_SchemeGroupVersion pkgs),
       Resource = ''secrets'' \<rparr>"

definition DeleteVirtualMachine ::
  "apiPackages \<Rightarrow> client \<Rightarrow> string \<Rightarrow> string \<Rightarrow> bool \<Rightarrow> call list \<Rightarrow> error option \<times> call list" where
  "DeleteVirtualMachine pkgs c namespace name wait log =
     deleteResource c namespace name (vmRes pkgs) wait log"

definition ListVirtualMachineNames ::
  "apiPackages \<Rightarrow> client \<Rightarrow> string \<Rightarrow> (string \<times> string) list \<Rightarrow> call list
    \<Rightarrow> (string list \<times> error option) \<times> call list" where
  "ListVirtualMachineNames pkgs c namespace requiredLabels log =
     listResource c namespace requiredLabels (vmRes pkgs) log"

definition DeleteDataVolume ::
  "apiPackages \<Rightarrow> client \<Rightarrow> string \<Rightarrow> string \<Rightarrow> bool \<Rightarrow> call list \<Rightarrow> error option \<times> call list" where
  "DeleteDataVolume pkgs c namespace name wait log =
     deleteResource c namespace name (dvRes pkgs) wait log"

definition ListDataVolumeNames ::
  "apiPackages \<Rightarrow> client \<Rightarrow> string \<Rightarrow> (string \<times> string) list \<Rightarrow> call list
    \<Rightarrow> (string list \<times> error option) \<times> call list" where
  "ListDataVolumeNames pkgs c namespace requiredLabels log =
     listResource c namespace requiredLabels (dvRes pkgs) log"

definition DeleteSecret ::
  "apiPackages \<Rightarrow> client \<Rightarrow> string \<Rightarrow> string \<Rightarrow> bool \<Rightarrow> call list \<Rightarrow> error option \<times> call list" where
  "DeleteSecret pkgs c namespace name wait log =
     deleteResource c namespace name (secretRes pkgs) wait log"

definition ListSecretNames ::
  "apiPackages \<Rightarrow> client \<Rightarrow> string \<Rightarrow> (string \<times> string) list \<Rightarrow> call list
    \<Rightarrow> (string list \<times> error option) \<times> call list" where
  "ListSecretNames pkgs c namespace requiredLabels log =
     listResource c namespace requiredLabels (secretRes pkgs) log"

section \<open>Notions the properties are stated with\<close>

subsection \<open>Validation\<close>

text \<open>
  The field an error is reported for, and what makes each of the three fields invalid:
  a CPU count that is not positive; a quantity string that does not parse, or parses to
  a quantity whose sign is not 1.
\<close>

fun errorField :: "fieldError \<Rightarrow> string list" where
  "errorField (Invalid path v detail) = path"

definition quantityInvalid :: "'q resourcePkg \<Rightarrow> string \<Rightarrow> bool" where
  "quantityInvalid resource s =
     (case ParseQuantity resource s of Inl err \<Rightarrow> True | Inr q \<Rightarrow> Sign resource q \<noteq> 1)"

definition fieldInvalid :: "'q resourcePkg \<Rightarrow> MachinePool \<Rightarrow> string \<Rightarrow> bool" where
  "fieldInvalid resource p f =
     (if f = ''cpu'' then CPU p \<le> 0
      else if f = ''storage'' then quantityInvalid resource (StorageSize p)
      else if f = ''memory'' then quantityInvalid resource (Memory p)
      else False)"

subsection \<open>Polling\<close>

text \<open>
  The log of \<open>k\<close> polls: each is a sleep of one second followed by one get of the
  resource. \<open>budgetError\<close> is the error of the loop that has used its five polls.
\<close>

definition polls :: "nat \<Rightarrow> GroupVersionResource \<Rightarrow> string \<Rightarrow> string \<Rightarrow> call list" where
  "polls k resource namespace name =
     concat (replicate k [SleepCall (1 * Second), GetCall resource namespace name])"

definition budgetError :: "string \<Rightarrow> error" where
  "budgetError name =
     Errorf (''Failed to delete resource '' @ name @ '', checked 5 times and the vm stil exists'')"

subsection \<open>Listing\<close>

text \<open>
  Two readings of "the object's labels match the required labels". The first is the
  one of a label selector, and of the words "required labels": every required pair is
  among the object's labels. The second asks for one of them only.
  \<open>listThenFilter\<close> is the spec's "list, then filter by namespace and label equality"
  under the first reading, \<open>listThenFilterAny\<close> under the second.
\<close>

definition matchesRequiredLabels :: "(string \<times> string) list \<Rightarrow> (string \<rightharpoonup> string) \<Rightarrow> bool" where
  "matchesRequiredLabels requiredLabels existLabels =
     list_all (\<lambda>(k, v). existLabels k = Some v) requiredLabels"

definition hasSomeRequiredLabel :: "(string \<times> string) list \<Rightarrow> (string \<rightharpoonup> string) \<Rightarrow> bool" where
  "hasSomeRequiredLabel requiredLabels existLabels =
     list_ex (\<lambda>(k, v). existLabels k = Some v) requiredLabels"

definition listThenFilter ::
  "string \<Rightarrow> (string \<times> string) list \<Rightarrow> Unstructured list \<Rightarrow> string list" where
  "listThenFilter namespace requiredLabels items =
     map GetName
       (filter (\<lambda>d. GetNamespace d = namespace
                    \<and> matchesRequiredLabels requiredLabels (GetLabels d)) items)"

definition listThenFilterAny ::
  "string \<Rightarrow> (string \<times> string) list \<Rightarrow> Unstructured list \<Rightarrow> string list" where
  "listThenFilterAny namespace requiredLabels items =
     map GetName
       (filter (\<lambda>d. GetNamespace d = namespace
                    \<and> hasSomeRequiredLabel requiredLabels (GetLabels d)) items)"

section \<open>Example inputs\<close>

text \<open>
  A quantity parser that knows four strings, with integers for quantities; a path join
  that puts a slash between the elements; a process with two readable files.
\<close>

definition exampleResource :: "int resourcePkg" where
  "exampleResource =
     \<lparr> ParseQuantity = (\<lambda>s.
          if s = ''10Gi'' then Inr 10737418240
          else if s = ''2Gi'' then Inr 2147483648
          else if s = ''0'' then Inr 0
          else if s = ''-1Gi'' then Inr (- 1073741824)
          else Inl (ExternalError ''quantities must match the regular expression'')),
       Sign = sgn \<rparr>"

fun slashJoin :: "string list \<Rightarrow> string" where
  "slashJoin [] = []"
| "slashJoin [x] = x"
| "slashJoin (x # y # ys) = x @ ''/'' @ slashJoin (y # ys)"

definition exampleProcess :: "(string \<rightharpoonup> string) \<Rightarrow> process" where
  "exampleProcess env =
     \<lparr> environ = env,
       ReadFile = (\<lambda>f.
          if f = ''/home/u/.kube/config'' then Inr ''default content''
          else if f = ''/etc/kubeconfig'' then Inr ''other content''
          else Inl (ExternalError ''no such file or directory'')) \<rparr>"

text \<open>
  Group and version names for the API packages; four objects in two namespaces; a
  cluster that lists those of the four that are in the namespace asked for, accepts a delete and
  answers the first \<open>n\<close> gets with the object and every later one with an error; a
  cluster that, as the cluster API does, lists the objects of all namespaces when the
  namespace asked for is the empty string; and a cluster that answers every request with
  an error.
\<close>

definition examplePkgs :: apiPackages where
  "examplePkgs =
     \<lparr> kubevirtapiv1_GroupVersion = \<lparr>Group = ''kubevirt.io'', Version = ''v1alpha3''\<rparr>,
       cdiapiv1alpa1_SchemeGroupVersion = \<lparr>Group = ''cdi.kubevirt.io'', Version = ''v1alpha1''\<rparr>,
       corev1_SchemeGroupVersion = \<lparr>Group = [], Version = ''v1''\<rparr>,
       nadv1_SchemeGroupVersion = \<lparr>Group = ''k8s.cni.cncf.io'', Version = ''v1''\<rparr> \<rparr>"

definition exampleItems :: "Unstructured list" where
  "exampleItems =
     [ \<lparr>GetNamespace = ''ns'', GetName = ''vm1'', GetLabels = [''a'' \<mapsto> ''1'']\<rparr>,
       \<lparr>GetNamespace = ''ns'', GetName = ''vm2'',
          GetLabels = [''a'' \<mapsto> ''1'', ''b'' \<mapsto> ''2'']\<rparr>,
       \<lparr>GetNamespace = ''other'', GetName = ''vm3'',
          GetLabels = [''a'' \<mapsto> ''1'', ''b'' \<mapsto> ''2'']\<rparr>,
       \<lparr>GetNamespace = ''ns'', GetName = ''vm4'', GetLabels = [''c'' \<mapsto> ''3'']\<rparr> ]"

definition itemsIn :: "string \<Rightarrow> Unstructured list" where
  "itemsIn namespace = filter (\<lambda>d. GetNamespace d = namespace) exampleItems"

definition presentUntil :: "nat \<Rightarrow> error \<Rightarrow> client" where
  "presentUntil n err =
     \<lparr> deleteAnswer = (\<lambda>resource namespace name. None),
       getAnswer = (\<lambda>i resource namespace name.
          if i < n
          then Inr \<lparr>GetNamespace = namespace, GetName = name, GetLabels = Map.empty\<rparr>
          else Inl err),
       listAnswer = (\<lambda>resource namespace. Inr (itemsIn namespace)) \<rparr>"

definition clusterWide :: client where
  "clusterWide =
     \<lparr> deleteAnswer = (\<lambda>resource namespace name. None),
       getAnswer = (\<lambda>i resource namespace name. Inl NotFound),
       listAnswer = (\<lambda>resource namespace.
          if namespace = [] then Inr exampleItems else Inr (itemsIn namespace)) \<rparr>"

definition failingCluster :: "error \<Rightarrow> client" where
  "failingCluster err =
     \<lparr> deleteAnswer = (\<lambda>resource namespace name. Some err),
       getAnswer = (\<lambda>i resource namespace name. Inl err),
       listAnswer = (\<lambda>resource namespace. Inl err) \<rparr>"

section \<open>The wait loop, round by round\<close>

lemma polls_Suc:
  "polls (Suc k) resource namespace name =
     SleepCall (1 * Second) # GetCall resource namespace name # polls k resource namespace name"
  by (simp add: polls_def)

lemma counter_below_5:
  fixes counter :: "64 word"
  assumes "unat counter < 5"
  shows "counter \<noteq> 5" and "unat (counter + 1) = Suc (unat counter)"
proof -
  from assms show "counter \<noteq> 5" by auto
  from assms have "unat counter + unat (1 :: 64 word) < 2 ^ LENGTH(64)" by simp
  then have "unat (counter + 1) = unat counter + unat (1 :: 64 word)"
    by (simp only: unat_add_lem)
  then show "unat (counter + 1) = Suc (unat counter)" by simp
qed

lemma waitLoop_step:
  assumes "counter \<noteq> 5"
  shows "waitLoop c namespace name resource None counter log =
           waitLoop c namespace name resource
             (errOf (getAnswer c (getCount log) resource namespace name)) (counter + 1)
             (log @ [SleepCall (1 * Second), GetCall resource namespace name])"
  using assms
  by (subst waitLoop.simps) (simp add: getResource_def Sleep_def getCount_def)

lemma waitLoop_stop:
  "waitLoop c namespace name resource (Some err) counter log = (None, log)"
  by (subst waitLoop.simps) simp

lemma waitLoop_budget:
  "waitLoop c namespace name resource None 5 log = (Some (budgetError name), log)"
  by (subst waitLoop.simps) (simp add: budgetError_def)

lemma getCount_poll:
  "getCount (log @ [SleepCall d, GetCall resource namespace name]) = Suc (getCount log)"
  by (simp add: getCount_def)


lemma polls_append:
  "log @ SleepCall (1 * Second) # GetCall resource namespace name # polls k resource namespace name
     = (log @ [SleepCall (1 * Second), GetCall resource namespace name]) @ polls k resource namespace name"
  by simp

lemma waitLoop_absent:
  assumes "unat counter + k < 5"
    and "\<forall>i<k. errOf (getAnswer c (getCount log + i) resource namespace name) = None"
    and "getAnswer c (getCount log + k) resource namespace name = Inl err"
  shows "waitLoop c namespace name resource None counter log =
           (None, log @ polls (Suc k) resource namespace name)"
  using assms
proof (induction k arbitrary: counter log)
  case 0
  then have "counter \<noteq> 5" by (simp add: counter_below_5)
  with 0 show ?case
    by (simp add: waitLoop_step waitLoop_stop polls_def)
next
  case (Suc k)
  let ?log = "log @ [SleepCall (1 * Second), GetCall resource namespace name]"
  from Suc.prems have below: "unat counter < 5" by simp
  then have ne: "counter \<noteq> 5" and up: "unat (counter + 1) = Suc (unat counter)"
    by (simp_all add: counter_below_5)
  from Suc.prems have first: "errOf (getAnswer c (getCount log) resource namespace name) = None"
    by (metis add.right_neutral zero_less_Suc)
  have "unat (counter + 1) + k < 5" using Suc.prems up by simp
  moreover have "\<forall>i<k. errOf (getAnswer c (getCount ?log + i) resource namespace name) = None"
    using Suc.prems(2) by (simp add: getCount_poll del: mult_1) (metis Suc_less_eq add_Suc_right)
  moreover have "getAnswer c (getCount ?log + k) resource namespace name = Inl err"
    using Suc.prems(3) by (simp add: getCount_poll del: mult_1)
  ultimately have "waitLoop c namespace name resource None (counter + 1) ?log =
      (None, ?log @ polls (Suc k) resource namespace name)"
    by (rule Suc.IH)
  then show ?case
    unfolding waitLoop_step [OF ne] first polls_Suc [of "Suc k"] polls_append .
qed

lemma waitLoop_exhausted:
  assumes "unat counter + k = 5"
    and "\<forall>i<k. errOf (getAnswer c (getCount log + i) resource namespace name) = None"
  shows "waitLoop c namespace name resource None counter log =
           (Some (budgetError name), log @ polls k resource namespace name)"
  using assms
proof (induction k arbitrary: counter log)
  case 0
  then have "unat counter = unat (5 :: 64 word)" by simp
  then have "counter = 5" by (simp only: word_unat_eq_iff)
  then show ?case by (simp add: waitLoop_budget polls_def)
next
  case (Suc k)
  let ?log = "log @ [SleepCall (1 * Second), GetCall resource namespace name]"
  from Suc.prems have below: "unat counter < 5" by simp
  then have ne: "counter \<noteq> 5" and up: "unat (counter + 1) = Suc (unat counter)"
    by (simp_all add: counter_below_5)
  from Suc.prems have first: "errOf (getAnswer c (getCount log) resource namespace name) = None"
    by (metis add.right_neutral zero_less_Suc)
  have "unat (counter + 1) + k = 5" using Suc.prems up by simp
  moreover have "\<forall>i<k. errOf (getAnswer c (getCount ?log + i) resource namespace name) = None"
    using Suc.prems(2) by (simp add: getCount_poll del: mult_1) (metis Suc_less_eq add_Suc_right)
  ultimately have "waitLoop c namespace name resource None (counter + 1) ?log =
      (Some (budgetError name), ?log @ polls k resource namespace name)"
    by (rule Suc.IH)
  then show ?case
    unfolding waitLoop_step [OF ne] first polls_Suc [of k] polls_append .
qed


lemma errOf_Some_iff: "errOf r \<noteq> None \<longleftrightarrow> (\<exists>err. r = Inl err)"
  by (cases r) simp_all

lemma waitLoop_bounded:
  assumes "unat counter \<le> 5"
  shows "\<exists>k. k \<le> 5 - unat counter \<and>
           ((1 \<le> k \<and> waitLoop c namespace name resource None counter log =
               (None, log @ polls k resource namespace name))
            \<or> (k = 5 - unat counter \<and> waitLoop c namespace name resource None counter log =
               (Some (budgetError name), log @ polls k resource namespace name)))"
proof (cases "\<exists>i<5 - unat counter.
    errOf (getAnswer c (getCount log + i) resource namespace name) \<noteq> None")
  case True
  define P where "P i \<longleftrightarrow> i < 5 - unat counter \<and>
    errOf (getAnswer c (getCount log + i) resource namespace name) \<noteq> None" for i
  from True have "\<exists>i. P i" by (auto simp: P_def)
  then have least: "P (LEAST i. P i)" by (rule LeastI_ex)
  define k where "k = (LEAST i. P i)"
  from least have "P k" by (simp only: k_def)
  then have lt: "k < 5 - unat counter"
    and ne: "errOf (getAnswer c (getCount log + k) resource namespace name) \<noteq> None"
    by (simp_all add: P_def)
  have before: "\<forall>i<k. errOf (getAnswer c (getCount log + i) resource namespace name) = None"
  proof (intro allI impI)
    fix i assume "i < k"
    then have "\<not> P i" unfolding k_def by (rule not_less_Least)
    moreover from \<open>i < k\<close> lt have "i < 5 - unat counter" by simp
    ultimately show "errOf (getAnswer c (getCount log + i) resource namespace name) = None"
      by (simp add: P_def)
  qed
  from ne obtain err where
    at: "getAnswer c (getCount log + k) resource namespace name = Inl err"
    unfolding errOf_Some_iff by (rule exE)
  from lt have "unat counter + k < 5" by simp
  then have "waitLoop c namespace name resource None counter log =
      (None, log @ polls (Suc k) resource namespace name)"
    using before at by (rule waitLoop_absent)
  moreover from lt have "Suc k \<le> 5 - unat counter" by simp
  ultimately show ?thesis by (intro exI [of _ "Suc k"]) simp
next
  case False
  then have "\<forall>i<5 - unat counter.
    errOf (getAnswer c (getCount log + i) resource namespace name) = None" by simp
  moreover from assms have "unat counter + (5 - unat counter) = 5" by simp
  ultimately have "waitLoop c namespace name resource None counter log =
      (Some (budgetError name), log @ polls (5 - unat counter) resource namespace name)"
    by (intro waitLoop_exhausted)
  then show ?thesis by (intro exI [of _ "5 - unat counter"]) simp
qed

lemma getCount_delete:
  "getCount (log @ [DeleteCall resource namespace name]) = getCount log"
  by (simp add: getCount_def)

lemma deleteResource_wait_eq:
  assumes "deleteAnswer c resource namespace name = None"
  shows "deleteResource c namespace name resource True log =
           waitLoop c namespace name resource None 0 (log @ [DeleteCall resource namespace name])"
  using assms by (simp add: deleteResource_def)

section \<open>The list loops as a filter\<close>

lemma labelsLoop_any:
  "labelsLoop requiredLabels existLabels name result =
     (if hasSomeRequiredLabel requiredLabels existLabels then result @ [name] else result)"
  by (induction requiredLabels existLabels name result rule: labelsLoop.induct)
     (auto simp: hasSomeRequiredLabel_def split: option.splits)

lemma itemsLoop_filter:
  "itemsLoop namespace requiredLabels items result =
     result @ listThenFilterAny namespace requiredLabels items"
  by (induction items arbitrary: result)
     (simp_all add: labelsLoop_any listThenFilterAny_def)

lemma listResource_ok:
  assumes "listAnswer c resource namespace = Inr items"
  shows "listResource c namespace requiredLabels resource log =
           ((listThenFilterAny namespace requiredLabels items, None),
            log @ [ListCall resource namespace])"
  using assms by (simp add: listResource_def itemsLoop_filter)

section \<open>The properties\<close>

subsection \<open>Validation\<close>

text \<open>
  C2. A machine pool whose CPU count is positive and whose storage size and memory both
  parse as quantities of sign 1 gets an empty error list.
\<close>

theorem ValidateMachinePool_valid:
  assumes "0 < CPU p"
    and "ParseQuantity resource (StorageSize p) = Inr storageQuantity"
    and "Sign resource storageQuantity = 1"
    and "ParseQuantity resource (Memory p) = Inr memoryQuantity"
    and "Sign resource memoryQuantity = 1"
  shows "ValidateMachinePool resource p fldPath = []"
  using assms by (simp add: ValidateMachinePool_def)

theorem ValidateMachinePool_valid_witness:
  "0 < CPU \<lparr>CPU = 4, StorageSize = ''10Gi'', Memory = ''2Gi''\<rparr>
   \<and> ParseQuantity exampleResource ''10Gi'' = Inr 10737418240
   \<and> Sign exampleResource 10737418240 = 1
   \<and> ParseQuantity exampleResource ''2Gi'' = Inr 2147483648
   \<and> Sign exampleResource 2147483648 = 1
   \<and> ValidateMachinePool exampleResource
        \<lparr>CPU = 4, StorageSize = ''10Gi'', Memory = ''2Gi''\<rparr> [''machinePool''] = []"
  using ValidateMachinePool_valid [of "\<lparr>CPU = 4, StorageSize = ''10Gi'', Memory = ''2Gi''\<rparr>"
      exampleResource 10737418240 2147483648 "[''machinePool'']"]
  by (simp add: exampleResource_def)

text \<open>
  C3. The errors are accumulated: the fields the errors are reported for are exactly the
  invalid ones among cpu, storage and memory, once each and in that order, so there are
  as many errors as invalid fields.
\<close>

theorem ValidateMachinePool_accumulates:
  "map errorField (ValidateMachinePool resource p fldPath) =
     map (Child fldPath) (filter (fieldInvalid resource p) [''cpu'', ''storage'', ''memory''])
   \<and> length (ValidateMachinePool resource p fldPath) =
     length (filter (fieldInvalid resource p) [''cpu'', ''storage'', ''memory''])"
  by (simp add: ValidateMachinePool_def fieldInvalid_def quantityInvalid_def split: sum.splits)

theorem ValidateMachinePool_accumulates_witness:
  "ValidateMachinePool exampleResource
     \<lparr>CPU = 0, StorageSize = ''ten'', Memory = ''-1Gi''\<rparr> [''machinePool''] =
     [Invalid [''machinePool'', ''cpu''] (IntValue 0) ''CPU must be positive'',
      Invalid [''machinePool'', ''storage''] (StringValue ''ten'')
        ''Storage size must be of Quantity type format'',
      Invalid [''machinePool'', ''memory''] (StringValue ''-1Gi'')
        ''Memory must be positive value'']
   \<and> map errorField (ValidateMachinePool exampleResource
        \<lparr>CPU = 0, StorageSize = ''10Gi'', Memory = ''0''\<rparr> [''machinePool'']) =
     [[''machinePool'', ''cpu''], [''machinePool'', ''memory'']]"
  using ValidateMachinePool_accumulates [of exampleResource
      "\<lparr>CPU = 0, StorageSize = ''10Gi'', Memory = ''0''\<rparr>" "[''machinePool'']"]
  by (simp add: ValidateMachinePool_def exampleResource_def fieldInvalid_def
        quantityInvalid_def Child_def)

subsection \<open>The kubeconfig file\<close>

text \<open>
  C7. LoadKubeConfigContent returns what reading the file named by KUBECONFIG returns;
  when the variable is not set or is empty, it reads the default file instead, whose
  name is the join of the HOME of the moment the package was initialised with
  \<^verbatim>\<open>.kube\<close> and \<^verbatim>\<open>config\<close>.
\<close>

theorem LoadKubeConfigContent_path:
  "LoadKubeConfigContent (initPackageVars Join s0) s =
     ReadFile s
       (case environ s ''KUBECONFIG'' of
          None \<Rightarrow> Join [Getenv s0 ''HOME'', ''.kube'', ''config'']
        | Some v \<Rightarrow> if v = [] then Join [Getenv s0 ''HOME'', ''.kube'', ''config''] else v)"
  by (simp add: LoadKubeConfigContent_def initPackageVars_def Getenv_def split: option.splits)

theorem LoadKubeConfigContent_path_witness:
  "LoadKubeConfigContent
     (initPackageVars slashJoin (exampleProcess [''HOME'' \<mapsto> ''/home/u'']))
     (exampleProcess [''HOME'' \<mapsto> ''/home/u'']) = Inr ''default content''
   \<and> LoadKubeConfigContent
     (initPackageVars slashJoin (exampleProcess [''HOME'' \<mapsto> ''/home/u'']))
     (exampleProcess [''HOME'' \<mapsto> ''/home/u'', ''KUBECONFIG'' \<mapsto> []]) = Inr ''default content''
   \<and> LoadKubeConfigContent
     (initPackageVars slashJoin (exampleProcess [''HOME'' \<mapsto> ''/home/u'']))
     (exampleProcess [''HOME'' \<mapsto> ''/home/u'', ''KUBECONFIG'' \<mapsto> ''/etc/kubeconfig''])
       = Inr ''other content''"
  using LoadKubeConfigContent_path [of slashJoin "exampleProcess [''HOME'' \<mapsto> ''/home/u'']"
      "exampleProcess [''HOME'' \<mapsto> ''/home/u'']"]
    LoadKubeConfigContent_path [of slashJoin "exampleProcess [''HOME'' \<mapsto> ''/home/u'']"
      "exampleProcess [''HOME'' \<mapsto> ''/home/u'', ''KUBECONFIG'' \<mapsto> []]"]
    LoadKubeConfigContent_path [of slashJoin "exampleProcess [''HOME'' \<mapsto> ''/home/u'']"
      "exampleProcess [''HOME'' \<mapsto> ''/home/u'', ''KUBECONFIG'' \<mapsto> ''/etc/kubeconfig'']"]
  by (simp add: exampleProcess_def Getenv_def)

subsection \<open>The getters of OperationProgress\<close>

text \<open>
  C10. On a nil receiver GetProgressPercent returns 0, and GetStartTime and GetEndTime
  return nil.
\<close>

theorem getters_nil_receiver:
  "GetProgressPercent (None :: 'ts OperationProgress option) = 0
   \<and> GetStartTime (None :: 'ts OperationProgress option) = None
   \<and> GetEndTime (None :: 'ts OperationProgress option) = None"
  by (simp add: GetProgressPercent_def GetStartTime_def GetEndTime_def)

subsection \<open>Deleting and waiting\<close>

text \<open>
  C1. When the delete call succeeds and wait is set: if the first \<open>k\<close> gets find the
  resource and the next one, within the five polls, reports it not found, deleteResource
  returns nil right after that get; if the first five gets all find the resource, it
  returns the error whose message names the resource, after those five polls.
\<close>

theorem deleteResource_wait:
  assumes "deleteAnswer c resource namespace name = None"
  shows "(k < 5
          \<and> (\<forall>i<k. errOf (getAnswer c (getCount log + i) resource namespace name) = None)
          \<and> getAnswer c (getCount log + k) resource namespace name = Inl NotFound
          \<longrightarrow> deleteResource c namespace name resource True log =
                (None, log @ DeleteCall resource namespace name
                         # polls (Suc k) resource namespace name))
       \<and> ((\<forall>i<5. errOf (getAnswer c (getCount log + i) resource namespace name) = None)
          \<longrightarrow> deleteResource c namespace name resource True log =
                (Some (Errorf (''Failed to delete resource '' @ name @
                               '', checked 5 times and the vm stil exists'')),
                 log @ DeleteCall resource namespace name # polls 5 resource namespace name))"
proof (intro conjI impI)
  let ?log = "log @ [DeleteCall resource namespace name]"
  assume h: "k < 5
          \<and> (\<forall>i<k. errOf (getAnswer c (getCount log + i) resource namespace name) = None)
          \<and> getAnswer c (getCount log + k) resource namespace name = Inl NotFound"
  have "waitLoop c namespace name resource None 0 ?log =
      (None, ?log @ polls (Suc k) resource namespace name)"
    using h by (intro waitLoop_absent) (simp_all add: getCount_delete)
  then show "deleteResource c namespace name resource True log =
      (None, log @ DeleteCall resource namespace name # polls (Suc k) resource namespace name)"
    by (simp add: deleteResource_wait_eq [OF assms])
next
  let ?log = "log @ [DeleteCall resource namespace name]"
  assume h: "\<forall>i<5. errOf (getAnswer c (getCount log + i) resource namespace name) = None"
  have "waitLoop c namespace name resource None 0 ?log =
      (Some (budgetError name), ?log @ polls 5 resource namespace name)"
    using h by (intro waitLoop_exhausted) (simp_all add: getCount_delete)
  then show "deleteResource c namespace name resource True log =
      (Some (Errorf (''Failed to delete resource '' @ name @
                               '', checked 5 times and the vm stil exists'')),
                 log @ DeleteCall resource namespace name # polls 5 resource namespace name)"
    by (simp add: deleteResource_wait_eq [OF assms] budgetError_def)
qed

theorem deleteResource_wait_witness:
  "deleteAnswer (presentUntil 2 NotFound) (vmRes examplePkgs) ''ns'' ''vm1'' = None
   \<and> getAnswer (presentUntil 2 NotFound) 2 (vmRes examplePkgs) ''ns'' ''vm1'' = Inl NotFound
   \<and> deleteResource (presentUntil 2 NotFound) ''ns'' ''vm1'' (vmRes examplePkgs) True [] =
       (None,
        [DeleteCall (vmRes examplePkgs) ''ns'' ''vm1'',
         SleepCall 1000000000, GetCall (vmRes examplePkgs) ''ns'' ''vm1'',
         SleepCall 1000000000, GetCall (vmRes examplePkgs) ''ns'' ''vm1'',
         SleepCall 1000000000, GetCall (vmRes examplePkgs) ''ns'' ''vm1''])
   \<and> deleteResource (presentUntil 7 NotFound) ''ns'' ''vm1'' (vmRes examplePkgs) True [] =
       (Some (Errorf ''Failed to delete resource vm1, checked 5 times and the vm stil exists''),
        [DeleteCall (vmRes examplePkgs) ''ns'' ''vm1'',
         SleepCall 1000000000, GetCall (vmRes examplePkgs) ''ns'' ''vm1'',
         SleepCall 1000000000, GetCall (vmRes examplePkgs) ''ns'' ''vm1'',
         SleepCall 1000000000, GetCall (vmRes examplePkgs) ''ns'' ''vm1'',
         SleepCall 1000000000, GetCall (vmRes examplePkgs) ''ns'' ''vm1'',
         SleepCall 1000000000, GetCall (vmRes examplePkgs) ''ns'' ''vm1''])"
  using deleteResource_wait [of "presentUntil 2 NotFound" "vmRes examplePkgs" "''ns''" "''vm1''" 2 "[]"]
    deleteResource_wait [of "presentUntil 7 NotFound" "vmRes examplePkgs" "''ns''" "''vm1''" 0 "[]"]
  by (simp add: presentUntil_def getCount_def polls_def Second_def eval_nat_numeral)

text \<open>
  C4. Errors of the cluster client come back unchanged: when the delete call fails,
  deleteResource returns its error and does nothing after the delete call, whatever the
  wait flag; when the list call fails, listResource returns no names and its error.
\<close>

theorem client_errors_verbatim:
  "(deleteAnswer c resource namespace name = Some err \<longrightarrow>
      deleteResource c namespace name resource wait log =
        (Some err, log @ [DeleteCall resource namespace name]))
   \<and> (listAnswer c resource namespace = Inl err \<longrightarrow>
      listResource c namespace requiredLabels resource log =
        (([], Some err), log @ [ListCall resource namespace]))"
  by (simp add: deleteResource_def listResource_def)

theorem client_errors_verbatim_witness:
  "deleteAnswer (failingCluster (ExternalError ''Forbidden'')) (vmRes examplePkgs) ''ns'' ''vm1''
      = Some (ExternalError ''Forbidden'')
   \<and> deleteResource (failingCluster (ExternalError ''Forbidden'')) ''ns'' ''vm1'' (vmRes examplePkgs) True [] =
        (Some (ExternalError ''Forbidden''), [DeleteCall (vmRes examplePkgs) ''ns'' ''vm1''])
   \<and> deleteResource (failingCluster (ExternalError ''Forbidden'')) ''ns'' ''vm1'' (vmRes examplePkgs) False [] =
        (Some (ExternalError ''Forbidden''), [DeleteCall (vmRes examplePkgs) ''ns'' ''vm1''])
   \<and> listAnswer (failingCluster (ExternalError ''Forbidden'')) (vmRes examplePkgs) ''ns''
      = Inl (ExternalError ''Forbidden'')
   \<and> listResource (failingCluster (ExternalError ''Forbidden'')) ''ns'' [(''a'', ''1'')] (vmRes examplePkgs) [] =
        (([], Some (ExternalError ''Forbidden'')), [ListCall (vmRes examplePkgs) ''ns''])"
  using client_errors_verbatim [of "failingCluster (ExternalError ''Forbidden'')" "vmRes examplePkgs"
      "''ns''" "''vm1''" "ExternalError ''Forbidden''" True "[]" "[(''a'', ''1'')]"]
    client_errors_verbatim [of "failingCluster (ExternalError ''Forbidden'')" "vmRes examplePkgs"
      "''ns''" "''vm1''" "ExternalError ''Forbidden''" False "[]" "[(''a'', ''1'')]"]
  by (simp add: failingCluster_def)

text \<open>
  C5. Whatever the cluster answers, the wait loop makes at least one and at most five
  polls after the delete call, each a sleep of one second and one get, and returns:
  either nil, or, after the fifth poll, the error of the exceeded budget.
\<close>

theorem deleteResource_polls_bounded:
  assumes "deleteAnswer c resource namespace name = None"
  shows "\<exists>k. 1 \<le> k \<and> k \<le> 5
           \<and> snd (deleteResource c namespace name resource True log) =
               log @ DeleteCall resource namespace name # polls k resource namespace name
           \<and> (fst (deleteResource c namespace name resource True log) = None
              \<or> (k = 5 \<and> fst (deleteResource c namespace name resource True log) =
                    Some (Errorf (''Failed to delete resource '' @ name @
                                  '', checked 5 times and the vm stil exists''))))"
proof -
  let ?log = "log @ [DeleteCall resource namespace name]"
  have "unat (0 :: 64 word) \<le> 5" by simp
  from waitLoop_bounded [OF this, of c namespace name resource ?log]
  obtain k where "k \<le> 5"
    and "(1 \<le> k \<and> waitLoop c namespace name resource None 0 ?log =
               (None, ?log @ polls k resource namespace name))
            \<or> (k = 5 \<and> waitLoop c namespace name resource None 0 ?log =
               (Some (budgetError name), ?log @ polls k resource namespace name))"
    by auto
  then show ?thesis
    by (intro exI [of _ k]) (auto simp: deleteResource_wait_eq [OF assms] budgetError_def)
qed

theorem deleteResource_polls_bounded_witness:
  "deleteAnswer (presentUntil 2 NotFound) (dvRes examplePkgs) ''ns'' ''dv1'' = None
   \<and> (\<exists>k. 1 \<le> k \<and> k \<le> 5
        \<and> snd (deleteResource (presentUntil 2 NotFound) ''ns'' ''dv1'' (dvRes examplePkgs) True []) =
            [] @ DeleteCall (dvRes examplePkgs) ''ns'' ''dv1'' # polls k (dvRes examplePkgs) ''ns'' ''dv1''
        \<and> (fst (deleteResource (presentUntil 2 NotFound) ''ns'' ''dv1'' (dvRes examplePkgs) True []) = None
           \<or> (k = 5 \<and> fst (deleteResource (presentUntil 2 NotFound) ''ns'' ''dv1'' (dvRes examplePkgs) True []) =
                Some (Errorf (''Failed to delete resource '' @ ''dv1'' @
                              '', checked 5 times and the vm stil exists'')))))"
  using deleteResource_polls_bounded [of "presentUntil 2 NotFound" "dvRes examplePkgs" "''ns''" "''dv1''" "[]"]
  by (simp add: presentUntil_def)

text \<open>
  C9. Any error of a get within the five polls, not only the one that reports the
  resource not found, ends the wait loop with nil.
\<close>

theorem deleteResource_any_get_error:
  assumes "deleteAnswer c resource namespace name = None"
    and "k < 5"
    and "\<forall>i<k. errOf (getAnswer c (getCount log + i) resource namespace name) = None"
    and "getAnswer c (getCount log + k) resource namespace name = Inl err"
  shows "deleteResource c namespace name resource True log =
           (None, log @ DeleteCall resource namespace name
                    # polls (Suc k) resource namespace name)"
proof -
  let ?log = "log @ [DeleteCall resource namespace name]"
  have "waitLoop c namespace name resource None 0 ?log =
      (None, ?log @ polls (Suc k) resource namespace name)"
    using assms(2-4) by (intro waitLoop_absent) (simp_all add: getCount_delete)
  then show ?thesis
    by (simp add: deleteResource_wait_eq [OF assms(1)])
qed

theorem deleteResource_any_get_error_witness:
  "deleteAnswer (presentUntil 1 (ExternalError ''Forbidden'')) (secretRes examplePkgs) ''ns'' ''s1'' = None
   \<and> getAnswer (presentUntil 1 (ExternalError ''Forbidden'')) 1 (secretRes examplePkgs) ''ns'' ''s1''
        = Inl (ExternalError ''Forbidden'')
   \<and> deleteResource (presentUntil 1 (ExternalError ''Forbidden'')) ''ns'' ''s1'' (secretRes examplePkgs) True [] =
       (None,
        [DeleteCall (secretRes examplePkgs) ''ns'' ''s1'',
         SleepCall 1000000000, GetCall (secretRes examplePkgs) ''ns'' ''s1'',
         SleepCall 1000000000, GetCall (secretRes examplePkgs) ''ns'' ''s1''])"
  using deleteResource_any_get_error [of "presentUntil 1 (ExternalError ''Forbidden'')"
      "secretRes examplePkgs" "''ns''" "''s1''" 1 "[]" "ExternalError ''Forbidden''"]
  by (simp add: presentUntil_def getCount_def polls_def Second_def eval_nat_numeral)

subsection \<open>Listing\<close>

text \<open>
  C6, as stated, fails: with two required labels, an object of the namespace that has
  one of them only is not among the objects that match the required labels, and its name
  is returned.
\<close>

theorem list_names_counterexample:
  "listAnswer (presentUntil 0 NotFound) (vmRes examplePkgs) ''ns'' = Inr (itemsIn ''ns'')
   \<and> fst (fst (ListVirtualMachineNames examplePkgs (presentUntil 0 NotFound) ''ns''
        [(''a'', ''1''), (''b'', ''2'')] [])) = [''vm1'', ''vm2'']
   \<and> listThenFilter ''ns'' [(''a'', ''1''), (''b'', ''2'')] (itemsIn ''ns'') = [''vm2'']
   \<and> fst (fst (ListVirtualMachineNames examplePkgs (presentUntil 0 NotFound) ''ns''
        [(''a'', ''1''), (''b'', ''2'')] []))
      \<noteq> listThenFilter ''ns'' [(''a'', ''1''), (''b'', ''2'')] (itemsIn ''ns'')"
  by (simp add: ListVirtualMachineNames_def listResource_def presentUntil_def itemsIn_def
        exampleItems_def listThenFilter_def matchesRequiredLabels_def)

text \<open>
  C6, amended. ListVirtualMachineNames, ListDataVolumeNames and ListSecretNames list
  the resources of their kind in the namespace and return, in the order of the listing,
  the names of those that are in the namespace and have at least one of the required
  labels with an equal value.
\<close>

theorem list_names_any_label:
  "(listAnswer c (vmRes pkgs) namespace = Inr items \<longrightarrow>
      ListVirtualMachineNames pkgs c namespace requiredLabels log =
        ((listThenFilterAny namespace requiredLabels items, None),
         log @ [ListCall (vmRes pkgs) namespace]))
   \<and> (listAnswer c (dvRes pkgs) namespace = Inr items \<longrightarrow>
      ListDataVolumeNames pkgs c namespace requiredLabels log =
        ((listThenFilterAny namespace requiredLabels items, None),
         log @ [ListCall (dvRes pkgs) namespace]))
   \<and> (listAnswer c (secretRes pkgs) namespace = Inr items \<longrightarrow>
      ListSecretNames pkgs c namespace requiredLabels log =
        ((listThenFilterAny namespace requiredLabels items, None),
         log @ [ListCall (secretRes pkgs) namespace]))"
  by (simp add: ListVirtualMachineNames_def ListDataVolumeNames_def ListSecretNames_def
        listResource_ok)

theorem list_names_any_label_witness:
  "listAnswer (presentUntil 0 NotFound) (vmRes examplePkgs) ''ns'' = Inr (itemsIn ''ns'')
   \<and> listAnswer (presentUntil 0 NotFound) (dvRes examplePkgs) ''ns'' = Inr (itemsIn ''ns'')
   \<and> listAnswer (presentUntil 0 NotFound) (secretRes examplePkgs) ''ns'' = Inr (itemsIn ''ns'')
   \<and> ListVirtualMachineNames examplePkgs (presentUntil 0 NotFound) ''ns''
        [(''a'', ''1''), (''b'', ''2'')] [] =
        (([''vm1'', ''vm2''], None), [ListCall (vmRes examplePkgs) ''ns''])
   \<and> ListDataVolumeNames examplePkgs (presentUntil 0 NotFound) ''ns''
        [(''a'', ''1''), (''b'', ''2'')] [] =
        (([''vm1'', ''vm2''], None), [ListCall (dvRes examplePkgs) ''ns''])
   \<and> ListSecretNames examplePkgs (presentUntil 0 NotFound) ''ns''
        [(''a'', ''1''), (''b'', ''2'')] [] =
        (([''vm1'', ''vm2''], None), [ListCall (secretRes examplePkgs) ''ns''])"
  using list_names_any_label [of "presentUntil 0 NotFound" examplePkgs "''ns''"
      "itemsIn ''ns''"
      "[(''a'', ''1''), (''b'', ''2'')]" "[]"]
  by (simp add: presentUntil_def itemsIn_def listThenFilterAny_def hasSomeRequiredLabel_def
        exampleItems_def)

text \<open>
  C8, as stated, fails: the claim is about every listed object, and listResource skips
  a listed object whose namespace is not the one asked for. Asked for the empty
  namespace, the cluster lists the objects of all namespaces; vm1 is listed and has the
  required label, and no name is returned.
\<close>

theorem listResource_any_match_counterexample:
  "listAnswer clusterWide (vmRes examplePkgs) [] = Inr exampleItems
   \<and> GetName (hd exampleItems) = ''vm1''
   \<and> GetLabels (hd exampleItems) ''a'' = Some ''1''
   \<and> fst (fst (listResource clusterWide [] [(''a'', ''1'')] (vmRes examplePkgs) [])) = []
   \<and> ''vm1'' \<notin> set (fst (fst (listResource clusterWide [] [(''a'', ''1'')]
        (vmRes examplePkgs) [])))"
  by (simp add: listResource_def clusterWide_def exampleItems_def)

text \<open>
  C8, amended. listResource matches on any label, among the listed objects of the
  namespace asked for: the names it returns are those of the listed objects that are in
  that namespace and for which at least one required pair is among the object's labels
  with an equal value (so of all listed objects with such a pair, when the listing holds
  objects of that namespace only); with no required labels it returns no names.
\<close>

theorem listResource_any_match:
  "(listAnswer c resource namespace = Inr items \<longrightarrow>
      fst (fst (listResource c namespace requiredLabels resource log)) =
        map GetName
          (filter (\<lambda>d. GetNamespace d = namespace
                       \<and> (\<exists>(k, v)\<in>set requiredLabels. GetLabels d k = Some v)) items))
   \<and> (listAnswer c resource namespace = Inr items
        \<and> (\<forall>d\<in>set items. GetNamespace d = namespace) \<longrightarrow>
      fst (fst (listResource c namespace requiredLabels resource log)) =
        map GetName
          (filter (\<lambda>d. \<exists>(k, v)\<in>set requiredLabels. GetLabels d k = Some v) items))
   \<and> fst (fst (listResource c namespace [] resource log)) = []"
proof (intro conjI impI)
  assume ok: "listAnswer c resource namespace = Inr items"
  show "fst (fst (listResource c namespace requiredLabels resource log)) =
        map GetName
          (filter (\<lambda>d. GetNamespace d = namespace
                       \<and> (\<exists>(k, v)\<in>set requiredLabels. GetLabels d k = Some v)) items)"
    by (simp add: listResource_ok [OF ok] listThenFilterAny_def hasSomeRequiredLabel_def
          list_ex_iff)
next
  assume h: "listAnswer c resource namespace = Inr items
        \<and> (\<forall>d\<in>set items. GetNamespace d = namespace)"
  then have ok: "listAnswer c resource namespace = Inr items" by simp
  from h have "filter (\<lambda>d. GetNamespace d = namespace
                       \<and> (\<exists>(k, v)\<in>set requiredLabels. GetLabels d k = Some v)) items
      = filter (\<lambda>d. \<exists>(k, v)\<in>set requiredLabels. GetLabels d k = Some v) items"
    by (intro filter_cong) auto
  then show "fst (fst (listResource c namespace requiredLabels resource log)) =
        map GetName
          (filter (\<lambda>d. \<exists>(k, v)\<in>set requiredLabels. GetLabels d k = Some v) items)"
    by (simp add: listResource_ok [OF ok] listThenFilterAny_def hasSomeRequiredLabel_def
          list_ex_iff)
next
  show "fst (fst (listResource c namespace [] resource log)) = []"
    by (cases "listAnswer c resource namespace")
       (simp_all add: listResource_def itemsLoop_filter listThenFilterAny_def
          hasSomeRequiredLabel_def)
qed

theorem listResource_any_match_witness:
  "listAnswer (presentUntil 0 NotFound) (vmRes examplePkgs) ''ns'' = Inr (itemsIn ''ns'')
   \<and> list_all (\<lambda>d. GetNamespace d = ''ns'') (itemsIn ''ns'')
   \<and> fst (fst (listResource (presentUntil 0 NotFound) ''ns'' [(''b'', ''2''), (''c'', ''3'')]
        (vmRes examplePkgs) [])) = [''vm2'', ''vm4'']
   \<and> fst (fst (listResource (presentUntil 0 NotFound) ''ns'' [] (vmRes examplePkgs) [])) = []"
  using listResource_any_match [of "presentUntil 0 NotFound" "vmRes examplePkgs" "''ns''"
      "itemsIn ''ns''"
      "[(''b'', ''2''), (''c'', ''3'')]" "[]"]
  by (simp add: presentUntil_def itemsIn_def exampleItems_def)

end
